theory Spec2Isabelle
  imports Main
begin

section \<open>Python strings\<close>

text \<open>
  A Python \<open>str\<close> is modelled as a \<open>string\<close>: every \<open>char\<close> stands for the code point
  of the same number, so the model covers the texts whose code points are below 256.
  The character classes below are those of CPython for that range.
\<close>

definition is_space :: "char \<Rightarrow> bool" where
  \<comment> \<open>\<open>str.isspace\<close>, which is also the class \<open>\s\<close> of \<open>re\<close> on a \<open>str\<close> pattern\<close>
  "is_space c = ((of_char c :: nat) \<in> set [9, 10, 11, 12, 13, 28, 29, 30, 31, 32, 133, 160])"

definition strip :: "string \<Rightarrow> string" where
  \<comment> \<open>\<open>s.strip()\<close>\<close>
  "strip s = rev (dropWhile is_space (rev (dropWhile is_space s)))"

definition to_lower :: "char \<Rightarrow> char" where
  \<comment> \<open>\<open>str.lower\<close> on one code point below 256\<close>
  "to_lower c = (let n = (of_char c :: nat) in
     if (65 \<le> n \<and> n \<le> 90) \<or> (192 \<le> n \<and> n \<le> 222 \<and> n \<noteq> 215) then char_of (n + 32) else c)"

definition lower :: "string \<Rightarrow> string" where
  "lower s = map to_lower s"

definition before :: "char \<Rightarrow> string \<Rightarrow> string" where
  \<comment> \<open>\<open>s.split(c, 1)[0]\<close>\<close>
  "before c s = takeWhile (\<lambda>x. x \<noteq> c) s"

definition after :: "char \<Rightarrow> string \<Rightarrow> string" where
  \<comment> \<open>\<open>s.split(c, 1)[1]\<close>, read only when \<open>c\<close> occurs in \<open>s\<close>\<close>
  "after c s = drop 1 (dropWhile (\<lambda>x. x \<noteq> c) s)"

fun split_on :: "char \<Rightarrow> string \<Rightarrow> string list" where
  \<comment> \<open>\<open>s.split(c)\<close>: at least one piece\<close>
  "split_on c [] = [[]]"
| "split_on c (x # xs) =
     (if x = c then [] # split_on c xs
      else (case split_on c xs of [] \<Rightarrow> [[x]] | p # ps \<Rightarrow> (x # p) # ps))"

fun join :: "string \<Rightarrow> string list \<Rightarrow> string" where
  \<comment> \<open>\<open>sep.join(xs)\<close>\<close>
  "join sep [] = []"
| "join sep [x] = x"
| "join sep (x # y # ys) = x @ sep @ join sep (y # ys)"

definition startswith :: "string \<Rightarrow> string \<Rightarrow> bool" where
  "startswith s p = (take (length p) s = p)"

definition endswith :: "string \<Rightarrow> string \<Rightarrow> bool" where
  "endswith s p = (length p \<le> length s \<and> drop (length s - length p) s = p)"

fun contains :: "string \<Rightarrow> string \<Rightarrow> bool" where
  \<comment> \<open>\<open>sub in s\<close>\<close>
  "contains sub [] = (sub = [])"
| "contains sub (c # cs) = (startswith (c # cs) sub \<or> contains sub cs)"

fun dedup :: "'a list \<Rightarrow> 'a list" where
  \<comment> \<open>\<open>list(dict.fromkeys(xs))\<close>: the first occurrence of each element, in order\<close>
  "dedup [] = []"
| "dedup (x # xs) = x # dedup (filter (\<lambda>y. y \<noteq> x) xs)"

section \<open>pathlib (pure POSIX paths)\<close>

text \<open>
  \<open>Path(s)\<close> is kept as its tuple \<open>parts\<close>: the root, when there is one, is the first
  element (\<open>/\<close>, or \<open>//\<close> for exactly two leading slashes), and the empty and \<open>.\<close>
  segments are dropped.
\<close>

definition py_parts :: "string \<Rightarrow> string list" where
  "py_parts s =
     (let segs = filter (\<lambda>x. x \<noteq> [] \<and> x \<noteq> ''.'') (split_on CHR ''/'' s);
          root = (if \<not> startswith s ''/'' then []
                  else if startswith s ''//'' \<and> \<not> startswith s ''///'' then [''//'']
                  else [''/''])
      in root @ segs)"

definition is_root_part :: "string \<Rightarrow> bool" where
  "is_root_part p = (p = ''/'' \<or> p = ''//'')"

definition is_absolute :: "string list \<Rightarrow> bool" where
  "is_absolute ps = (case ps of [] \<Rightarrow> False | r # _ \<Rightarrow> is_root_part r)"

definition name_of :: "string list \<Rightarrow> string" where
  \<comment> \<open>\<open>Path.name\<close>: empty for the empty path and for a bare root\<close>
  "name_of ps = (if length ps = (if is_absolute ps then 1 else 0) then [] else last ps)"

definition rfind_dot :: "string \<Rightarrow> nat option" where
  \<comment> \<open>\<open>name.rfind('.')\<close>, with None for -1\<close>
  "rfind_dot n = (if CHR ''.'' \<in> set n
                  then Some (length n - 1 - length (takeWhile (\<lambda>x. x \<noteq> CHR ''.'') (rev n)))
                  else None)"

definition suffix_of_name :: "string \<Rightarrow> string" where
  \<comment> \<open>\<open>Path.suffix\<close>: from the last dot, unless that dot is first or last in the name\<close>
  "suffix_of_name n =
     (case rfind_dot n of None \<Rightarrow> []
      | Some i \<Rightarrow> if 0 < i \<and> i + 1 < length n then drop i n else [])"

definition stem_of_name :: "string \<Rightarrow> string" where
  "stem_of_name n =
     (case rfind_dot n of None \<Rightarrow> n
      | Some i \<Rightarrow> if 0 < i \<and> i + 1 < length n then take i n else n)"

definition py_name :: "string \<Rightarrow> string" where
  "py_name s = name_of (py_parts s)"

definition py_suffix :: "string \<Rightarrow> string" where
  "py_suffix s = suffix_of_name (py_name s)"

definition py_stem :: "string \<Rightarrow> string" where
  "py_stem s = stem_of_name (py_name s)"

definition as_posix :: "string list \<Rightarrow> string" where
  "as_posix ps =
     (case ps of [] \<Rightarrow> ''.''
      | r # rest \<Rightarrow> if is_root_part r then r @ join ''/'' rest else join ''/'' ps)"

section \<open>links.py: extensions\<close>

definition MD_EXTS :: "string list" where
  "MD_EXTS = [''.md'', ''.markdown'', ''.mdown'']"

definition IMG_EXTS :: "string list" where
  "IMG_EXTS = [''.png'', ''.jpg'', ''.jpeg'', ''.gif'', ''.webp'', ''.svg'', ''.pdf'']"

definition ASSET_EXTS :: "string list" where
  "ASSET_EXTS = IMG_EXTS @ [''.mp4'', ''.m4a'', ''.webm'', ''.mov'', ''.mp3'', ''.wav'', ''.ogg'']"

definition is_md_name :: "string \<Rightarrow> bool" where
  \<comment> \<open>\<open>is_md(p)\<close>, on the file name of \<open>p\<close>\<close>
  "is_md_name n = (lower (suffix_of_name n) \<in> set MD_EXTS)"

definition strip_md_ext :: "string \<Rightarrow> string" where
  "strip_md_ext path_str =
     (let ps = py_parts path_str in
      if lower (suffix_of_name (name_of ps)) \<in> set MD_EXTS
      then as_posix (butlast ps @ [stem_of_name (name_of ps)])
      else as_posix ps)"

section \<open>indexer.py: metadata items and backlinks\<close>

text \<open>
  The dictionaries of \<open>process_file\<close> are records; a key that the code leaves out is
  \<open>None\<close>. The fields keep the JSON names behind a prefix that tells the three
  records apart.
\<close>

record link_entry =
  le_link :: string
  le_relativePath :: string
  le_cleanLink :: "string option"
  le_displayText :: "string option"

record backlink_entry =
  bl_fileName :: string
  bl_link :: string
  bl_relativePath :: string
  bl_displayText :: string

record item =
  it_fileName :: string
  it_relativePath :: string
  it_tags :: "string list option"
  it_links :: "link_entry list option"
  it_backlinks :: "backlink_entry list option"

definition get_links :: "item \<Rightarrow> link_entry list" where
  \<comment> \<open>\<open>it.get("links", [])\<close>\<close>
  "get_links it = (case it_links it of None \<Rightarrow> [] | Some ls \<Rightarrow> ls)"

definition get_list :: "(string \<rightharpoonup> string list) \<Rightarrow> string \<Rightarrow> string list" where
  \<comment> \<open>\<open>d.get(k, [])\<close>\<close>
  "get_list d k = (case d k of None \<Rightarrow> [] | Some xs \<Rightarrow> xs)"

fun forward_links :: "(string \<rightharpoonup> string list) \<Rightarrow> string \<Rightarrow> link_entry list \<Rightarrow> (string \<rightharpoonup> string list)" where
  \<comment> \<open>the inner loop: \<open>forward.setdefault(ln["relativePath"], []).append(src)\<close>\<close>
  "forward_links fw src [] = fw"
| "forward_links fw src (ln # lns) =
     forward_links (fw(le_relativePath ln \<mapsto> get_list fw (le_relativePath ln) @ [src])) src lns"

fun forward_items :: "(string \<rightharpoonup> string list) \<Rightarrow> item list \<Rightarrow> (string \<rightharpoonup> string list)" where
  "forward_items fw [] = fw"
| "forward_items fw (it # its) =
     forward_items (forward_links fw (it_relativePath it) (get_links it)) its"

definition backlink_of :: "string \<Rightarrow> string \<Rightarrow> backlink_entry" where
  "backlink_of this_name src =
     \<lparr>bl_fileName = py_stem src, bl_link = this_name, bl_relativePath = src,
      bl_displayText = this_name\<rparr>"

definition set_backlinks :: "(string \<rightharpoonup> string list) \<Rightarrow> item \<Rightarrow> item" where
  "set_backlinks fw it =
     (let srcs = get_list fw (it_relativePath it) in
      if srcs \<noteq> [] then it\<lparr>it_backlinks := Some (map (backlink_of (py_stem (it_relativePath it))) srcs)\<rparr>
      else it)"

definition invert_links :: "item list \<Rightarrow> item list" where
  \<comment> \<open>lines 106 to 124 of \<open>build_metadata\<close>\<close>
  "invert_links items = map (set_backlinks (forward_items Map.empty items)) items"

definition sources_of :: "string \<Rightarrow> item list \<Rightarrow> string list" where
  \<comment> \<open>one source path for every link entry that points to \<open>target\<close>, in scan order\<close>
  "sources_of target items =
     concat (map (\<lambda>a. map (\<lambda>_. it_relativePath a)
                          (filter (\<lambda>ln. le_relativePath ln = target) (get_links a))) items)"

section \<open>deploy/webhook.py\<close>

datatype py_error = ValueError | IndexError | TypeError

text \<open>
  HMAC-SHA256 is a library function: the model takes the digest as a parameter \<open>mac\<close>,
  from the key and the message to the digest bytes, and writes \<open>hexdigest\<close> out.
\<close>

definition hexdigit :: "nat \<Rightarrow> char" where
  "hexdigit n = (''0123456789abcdef'' ! (n mod 16))"

definition hexdigest :: "nat list \<Rightarrow> string" where
  "hexdigest bs = concat (map (\<lambda>b. [hexdigit (b div 16), hexdigit b]) bs)"

definition is_ascii :: "string \<Rightarrow> bool" where
  "is_ascii s = list_all (\<lambda>c. (of_char c :: nat) < 128) s"

definition compare_digest :: "string \<Rightarrow> string \<Rightarrow> py_error + bool" where
  \<comment> \<open>\<open>hmac.compare_digest\<close> on two \<open>str\<close>: a TypeError unless both are ASCII\<close>
  "compare_digest a b = (if is_ascii a \<and> is_ascii b then Inr (a = b) else Inl TypeError)"

definition verify :: "(string \<Rightarrow> string \<Rightarrow> nat list) \<Rightarrow> string \<Rightarrow> string option \<Rightarrow> string \<Rightarrow> py_error + bool" where
  \<comment> \<open>\<open>secret\<close> is the module constant SECRET; a missing header is \<open>None\<close>\<close>
  "verify mac secret sig_header body =
     (if secret = [] then Inr False
      else case sig_header of
             None \<Rightarrow> Inr False
           | Some h \<Rightarrow>
               if h = [] \<or> \<not> startswith h ''sha256='' then Inr False
               else compare_digest (''sha256='' @ hexdigest (mac secret body)) h)"

record response =
  status :: nat
  launched :: bool

definition webhook :: "(string \<Rightarrow> string \<Rightarrow> nat list) \<Rightarrow> string \<Rightarrow> string option \<Rightarrow> string \<Rightarrow> response" where
  \<comment> \<open>\<open>abort(403)\<close> ends the request; an exception that escapes the view is answered 500 by Flask\<close>
  "webhook mac secret sig body =
     (case verify mac secret sig body of
        Inl e \<Rightarrow> \<lparr>status = 500, launched = False\<rparr>
      | Inr ok \<Rightarrow> if \<not> ok then \<lparr>status = 403, launched = False\<rparr>
                   else \<lparr>status = 200, launched = True\<rparr>)"

section \<open>Regular expressions of links.py and parse.py\<close>

text \<open>
  Each pattern is a function that matches at the head of a text and gives the groups and
  the length of the match; \<open>re_sub\<close> and \<open>re_finditer\<close> then scan from left to right,
  taking the leftmost match and going on behind it. No pattern here matches the empty
  text.
\<close>

definition code :: "char \<Rightarrow> nat" where
  "code c = of_char c"

fun re_sub :: "(string \<Rightarrow> ('g \<times> nat) option) \<Rightarrow> ('g \<Rightarrow> string \<Rightarrow> string) \<Rightarrow> nat \<Rightarrow> string \<Rightarrow> string" where
  \<comment> \<open>\<open>pattern.sub(repl, text)\<close>; the number is how many characters of a match remain to be skipped\<close>
  "re_sub m repl k [] = []"
| "re_sub m repl k (c # cs) =
     (if 0 < k then re_sub m repl (k - 1) cs
      else case m (c # cs) of
             None \<Rightarrow> c # re_sub m repl 0 cs
           | Some (g, n) \<Rightarrow> repl g (take n (c # cs)) @ re_sub m repl (n - 1) cs)"

fun re_finditer :: "(string \<Rightarrow> ('g \<times> nat) option) \<Rightarrow> nat \<Rightarrow> string \<Rightarrow> 'g list" where
  "re_finditer m k [] = []"
| "re_finditer m k (c # cs) =
     (if 0 < k then re_finditer m (k - 1) cs
      else case m (c # cs) of
             None \<Rightarrow> re_finditer m 0 cs
           | Some (g, n) \<Rightarrow> g # re_finditer m (n - 1) cs)"

fun wiki_body :: "string \<Rightarrow> string option" where
  \<comment> \<open>\<open>(.+?)\]\]\<close>: the shortest non-empty run without a newline that \<open>]]\<close> follows\<close>
  "wiki_body [] = None"
| "wiki_body (c # cs) =
     (if c = CHR 0x0A then None
      else if startswith cs '']]'' then Some [c]
      else map_option (\<lambda>b. c # b) (wiki_body cs))"

definition WIKI_LINK :: "string \<Rightarrow> ((string \<times> string) \<times> nat) option" where
  \<comment> \<open>\<open>(?P<bang>!?)\[\[(?P<body>.+?)\]\]\<close>, groups (bang, body)\<close>
  "WIKI_LINK s =
     (if startswith s ''![['' then
        map_option (\<lambda>b. ((''!'', b), length b + 5)) (wiki_body (drop 3 s))
      else if startswith s ''[['' then
        map_option (\<lambda>b. (([], b), length b + 4)) (wiki_body (drop 2 s))
      else None)"

definition md_link_at :: "string \<Rightarrow> ((string \<times> string) \<times> nat) option" where
  \<comment> \<open>\<open>\[(?P<text>[^\]]*)\]\((?P<url>[^)]+)\)\<close>, groups (text, url)\<close>
  "md_link_at s =
     (if \<not> startswith s ''['' then None
      else let text = takeWhile (\<lambda>x. x \<noteq> CHR '']'') (drop 1 s);
               r = drop (1 + length text) s
           in if \<not> startswith r ''](''  then None
              else let url = takeWhile (\<lambda>x. x \<noteq> CHR '')'') (drop 2 r);
                       r' = drop (2 + length url) r
                   in if url = [] \<or> \<not> startswith r' '')'' then None
                      else Some ((text, url), length text + length url + 4))"

definition MD_LINK :: "string \<Rightarrow> ((string \<times> string \<times> string) \<times> nat) option" where
  \<comment> \<open>\<open>(!?)\[(?P<text>[^\]]*)\]\((?P<url>[^)]+)\)\<close>, groups (bang, text, url)\<close>
  "MD_LINK s =
     (if startswith s ''!'' then
        map_option (\<lambda>((t, u), n). ((''!'', t, u), n + 1)) (md_link_at (drop 1 s))
      else map_option (\<lambda>((t, u), n). (([], t, u), n)) (md_link_at s))"

definition is_word :: "char \<Rightarrow> bool" where
  \<comment> \<open>the class \<open>\w\<close> on a \<open>str\<close>\<close>
  "is_word c = (let n = code c in
     (48 \<le> n \<and> n \<le> 57) \<or> (65 \<le> n \<and> n \<le> 90) \<or> n = 95 \<or> (97 \<le> n \<and> n \<le> 122) \<or>
     n \<in> set [170, 178, 179, 181, 185, 186, 188, 189, 190] \<or>
     (192 \<le> n \<and> n \<le> 214) \<or> (216 \<le> n \<and> n \<le> 246) \<or> (248 \<le> n \<and> n \<le> 255))"

definition is_tag_char :: "char \<Rightarrow> bool" where
  \<comment> \<open>\<open>[A-Za-z0-9/_-]\<close>\<close>
  "is_tag_char c = (let n = code c in
     (48 \<le> n \<and> n \<le> 57) \<or> (65 \<le> n \<and> n \<le> 90) \<or> (97 \<le> n \<and> n \<le> 122) \<or>
     n = 47 \<or> n = 95 \<or> n = 45)"

fun INLINE_TAG_finditer :: "char option \<Rightarrow> nat \<Rightarrow> string \<Rightarrow> string list" where
  \<comment> \<open>group 1 of every match of \<open>(?<!\w)#([A-Za-z0-9/_-]+)\<close>; the first argument is the
      character before the position, for the lookbehind\<close>
  "INLINE_TAG_finditer prev k [] = []"
| "INLINE_TAG_finditer prev k (c # cs) =
     (if 0 < k then INLINE_TAG_finditer (Some c) (k - 1) cs
      else if c = CHR ''#'' \<and> \<not> (case prev of None \<Rightarrow> False | Some p \<Rightarrow> is_word p)
              \<and> takeWhile is_tag_char cs \<noteq> []
      then takeWhile is_tag_char cs
             # INLINE_TAG_finditer (Some c) (length (takeWhile is_tag_char cs)) cs
      else INLINE_TAG_finditer (Some c) 0 cs)"

section \<open>parse.py: frontmatter and tags\<close>

definition is_linebreak :: "char \<Rightarrow> bool" where
  \<comment> \<open>the line boundaries of \<open>str.splitlines\<close> below 256\<close>
  "is_linebreak c = (code c \<in> set [10, 11, 12, 13, 28, 29, 30, 133])"

fun splitlines :: "string \<Rightarrow> string list" where
  \<comment> \<open>\<open>text.splitlines()\<close>: the terminators are dropped, \<open>\r\n\<close> is one terminator, and a
      terminator at the end opens no further line\<close>
  "splitlines [] = []"
| "splitlines (c # cs) =
     (if is_linebreak c then
        (case cs of
           [] \<Rightarrow> [[]]
         | d # ds \<Rightarrow> if c = CHR 0x0D \<and> d = CHR 0x0A then [] # splitlines ds
                     else [] # splitlines cs)
      else (case splitlines cs of [] \<Rightarrow> [[c]] | l # ls \<Rightarrow> (c # l) # ls))"

definition FM_START :: "string \<Rightarrow> bool" where
  \<comment> \<open>\<open>^\s*---\s*$\<close>\<close>
  "FM_START l = (let r = dropWhile is_space l in
     startswith r ''---'' \<and> list_all is_space (drop 3 r))"

definition FM_END :: "string \<Rightarrow> bool" where
  \<comment> \<open>\<open>^\s*(---|\.\.\.)\s*$\<close>\<close>
  "FM_END l = (let r = dropWhile is_space l in
     (startswith r ''---'' \<or> startswith r ''...'') \<and> list_all is_space (drop 3 r))"

definition fm_block :: "string list \<Rightarrow> string list" where
  \<comment> \<open>the lines from line 1 up to the first closing line: the \<open>while\<close> loop\<close>
  "fm_block lines = takeWhile (\<lambda>l. \<not> FM_END l) (drop 1 lines)"

definition body_start :: "string \<Rightarrow> nat" where
  "body_start text =
     (let lines = splitlines text in
      if lines \<noteq> [] \<and> FM_START (hd lines) then
        (let i = 1 + length (fm_block lines) in if i < length lines then i + 1 else 0)
      else 0)"

datatype fm_value = FList "string list" | FStr string

definition list_key :: "string \<Rightarrow> string option" where
  \<comment> \<open>\<open>^\s*(tags|aliases)\s*:\s*$\<close>, giving \<open>ln.split(':')[0].strip()\<close>\<close>
  "list_key ln =
     (let r = dropWhile is_space ln;
          k = (if startswith r ''tags'' then Some ''tags''
               else if startswith r ''aliases'' then Some ''aliases'' else None)
      in case k of
           None \<Rightarrow> None
         | Some key \<Rightarrow>
             (let r' = dropWhile is_space (drop (length key) r) in
              if startswith r' '':'' \<and> list_all is_space (drop 1 r')
              then Some (strip (before CHR '':'' ln)) else None))"

definition list_item :: "string \<Rightarrow> string option" where
  \<comment> \<open>group 1 of \<open>^\s*-\s*(.+?)\s*$\<close>: the rest without the spaces around it, or the last
      space when nothing but spaces follows the dash\<close>
  "list_item ln =
     (let r = dropWhile is_space ln in
      if \<not> startswith r ''-'' \<or> drop 1 r = [] then None
      else let v = dropWhile is_space (drop 1 r) in
           if v = [] then Some [last r]
           else Some (rev (dropWhile is_space (rev v))))"

definition is_key_char :: "char \<Rightarrow> bool" where
  \<comment> \<open>\<open>[A-Za-z0-9_.-]\<close>\<close>
  "is_key_char c = (let n = code c in
     (48 \<le> n \<and> n \<le> 57) \<or> (65 \<le> n \<and> n \<le> 90) \<or> (97 \<le> n \<and> n \<le> 122) \<or>
     n = 95 \<or> n = 46 \<or> n = 45)"

definition key_value :: "string \<Rightarrow> (string \<times> string) option" where
  \<comment> \<open>groups 1 and 2 of \<open>^\s*([A-Za-z0-9_.-]+)\s*:\s*(.*)$\<close>\<close>
  "key_value ln =
     (let r = dropWhile is_space ln;
          k = takeWhile is_key_char r;
          r' = dropWhile is_space (drop (length k) r)
      in if k = [] \<or> \<not> startswith r' '':'' then None
         else Some (k, dropWhile is_space (drop 1 r')))"

fun fm_lines :: "(string \<rightharpoonup> fm_value) \<Rightarrow> string option \<Rightarrow> string list \<Rightarrow> (string \<rightharpoonup> fm_value)" where
  \<comment> \<open>the loop over the block, with \<open>cur_key\<close>. A list is appended to only under a key that
      the loop has just set to a list, so the value there is never a \<open>str\<close>\<close>
  "fm_lines fm cur_key [] = fm"
| "fm_lines fm cur_key (ln # lns) =
     (case list_key ln of
        Some k \<Rightarrow> fm_lines (fm(k \<mapsto> FList [])) (Some k) lns
      | None \<Rightarrow>
          (case (list_item ln, cur_key) of
             (Some v, Some k) \<Rightarrow>
               fm_lines (case fm k of Some (FList xs) \<Rightarrow> fm(k \<mapsto> FList (xs @ [v])) | _ \<Rightarrow> fm)
                 cur_key lns
           | _ \<Rightarrow>
               (case key_value ln of
                  Some (k, v) \<Rightarrow> fm_lines (fm(k \<mapsto> FStr v)) None lns
                | None \<Rightarrow> fm_lines fm cur_key lns)))"

definition fm_get_list :: "(string \<rightharpoonup> fm_value) \<Rightarrow> string \<Rightarrow> string list" where
  \<comment> \<open>\<open>list(dict.fromkeys(fm.get(key, [])))\<close>; iterating a \<open>str\<close> gives its characters\<close>
  "fm_get_list fm key =
     (case fm key of
        None \<Rightarrow> []
      | Some (FList xs) \<Rightarrow> dedup xs
      | Some (FStr s) \<Rightarrow> dedup (map (\<lambda>c. [c]) s))"

definition frontmatter :: "string \<Rightarrow> (string \<rightharpoonup> fm_value)" where
  "frontmatter text =
     (let lines = splitlines text in
      if lines \<noteq> [] \<and> FM_START (hd lines) then fm_lines Map.empty None (fm_block lines)
      else Map.empty)"

definition body_of :: "string \<Rightarrow> string" where
  \<comment> \<open>\<open>"\n".join(lines[body_start:]) if body_start else text\<close>\<close>
  "body_of text =
     (if body_start text \<noteq> 0 then join [CHR 0x0A] (drop (body_start text) (splitlines text))
      else text)"

definition inline_tags :: "string \<Rightarrow> string list" where
  \<comment> \<open>the links are replaced by a space, then the hashtags are collected\<close>
  "inline_tags body =
     INLINE_TAG_finditer None 0
       (re_sub MD_LINK (\<lambda>_ _. '' '') 0 (re_sub WIKI_LINK (\<lambda>_ _. '' '') 0 body))"

definition merge_tags :: "string list \<Rightarrow> string list \<Rightarrow> string list" where
  "merge_tags tags inline =
     (if inline \<noteq> [] then dedup (tags @ filter (\<lambda>t. t \<notin> set tags) inline) else tags)"

definition parse_frontmatter_and_tags ::
    "string \<Rightarrow> (string \<rightharpoonup> fm_value) \<times> string list \<times> string list \<times> string" where
  "parse_frontmatter_and_tags text =
     (let fm = frontmatter text;
          body = body_of text
      in (fm, merge_tags (fm_get_list fm ''tags'') (inline_tags body),
          fm_get_list fm ''aliases'', body))"

section \<open>The filesystem\<close>

text \<open>
  A path of the filesystem is the list of its segments below \<open>/\<close>. The filesystem is the
  list of its regular files with their texts, in the order in which a directory walk
  lists them, and the directories that exist besides the ancestors of these files.
  There are no symbolic links, so \<open>Path.resolve\<close> is the lexical normal form.
\<close>

type_synonym path = "string list"

record filesystem =
  fs_files :: "(path \<times> string) list"
  fs_dirs :: "path list"

definition file_paths :: "filesystem \<Rightarrow> path list" where
  "file_paths fs = map fst (fs_files fs)"

definition is_file :: "filesystem \<Rightarrow> path \<Rightarrow> bool" where
  "is_file fs p = (p \<in> set (file_paths fs))"

definition is_dir :: "filesystem \<Rightarrow> path \<Rightarrow> bool" where
  "is_dir fs p = (p = [] \<or> p \<in> set (fs_dirs fs) \<or>
     list_ex (\<lambda>q. length p < length q \<and> take (length p) q = p) (file_paths fs @ fs_dirs fs))"

definition path_exists :: "filesystem \<Rightarrow> path \<Rightarrow> bool" where
  \<comment> \<open>\<open>p.exists()\<close> on a resolved path\<close>
  "path_exists fs p = (is_file fs p \<or> is_dir fs p)"

fun stat_walk :: "filesystem \<Rightarrow> path \<Rightarrow> string list \<Rightarrow> bool" where
  \<comment> \<open>\<open>p.exists()\<close> on a path that may hold \<open>..\<close>: the system walks the segments, and every
      segment it leaves behind has to be a directory\<close>
  "stat_walk fs cur [] = path_exists fs cur"
| "stat_walk fs cur (s # ss) =
     (is_dir fs cur \<and>
      (if s = ''..'' then stat_walk fs (butlast cur) ss else stat_walk fs (cur @ [s]) ss))"

definition read_text :: "filesystem \<Rightarrow> path \<Rightarrow> string" where
  "read_text fs p = (case map_of (fs_files fs) p of None \<Rightarrow> [] | Some t \<Rightarrow> t)"

definition write_text :: "filesystem \<Rightarrow> path \<Rightarrow> string \<Rightarrow> filesystem" where
  \<comment> \<open>\<open>p.write_text(t)\<close> on a file that exists\<close>
  "write_text fs p t =
     fs\<lparr>fs_files := map (\<lambda>(q, c). if q = p then (q, t) else (q, c)) (fs_files fs)\<rparr>"

definition rglob_files :: "filesystem \<Rightarrow> path \<Rightarrow> path list" where
  \<comment> \<open>\<open>[p for p in root.rglob("*") if p.is_file()]\<close>, in the order of the walk\<close>
  "rglob_files fs root =
     filter (\<lambda>p. length root < length p \<and> take (length root) p = root) (file_paths fs)"

fun resolve_parts :: "path \<Rightarrow> string list \<Rightarrow> path" where
  \<comment> \<open>\<open>(cur / parts).resolve()\<close>; \<open>..\<close> at the root stays at the root\<close>
  "resolve_parts cur [] = cur"
| "resolve_parts cur (p # ps) =
     (if p = ''..'' then resolve_parts (butlast cur) ps else resolve_parts (cur @ [p]) ps)"

fun common_prefix :: "'a list \<Rightarrow> 'a list \<Rightarrow> nat" where
  "common_prefix (x # xs) (y # ys) = (if x = y then Suc (common_prefix xs ys) else 0)"
| "common_prefix _ _ = 0"

definition relpath :: "path \<Rightarrow> path \<Rightarrow> string" where
  \<comment> \<open>\<open>os.path.relpath(p, start=s)\<close> on absolute paths: both are normalised first\<close>
  "relpath p s =
     (let p' = resolve_parts [] p; s' = resolve_parts [] s;
          i = common_prefix s' p';
          rel = replicate (length s' - i) ''..'' @ drop i p'
      in if rel = [] then ''.'' else join ''/'' rel)"

definition to_rel :: "path \<Rightarrow> path \<Rightarrow> string" where
  \<comment> \<open>\<open>os.path.relpath(abs_file, start=base).replace("\\", "/")\<close>\<close>
  "to_rel base abs_file =
     map (\<lambda>c. if c = CHR 0x5C then CHR ''/'' else c) (relpath abs_file base)"



section \<open>Sorting\<close>

fun lex_lt :: "('a \<Rightarrow> 'a \<Rightarrow> bool) \<Rightarrow> 'a list \<Rightarrow> 'a list \<Rightarrow> bool" where
  \<comment> \<open>the order of Python on sequences, from the order \<open>lt\<close> of the elements\<close>
  "lex_lt lt [] [] = False"
| "lex_lt lt [] (y # ys) = True"
| "lex_lt lt (x # xs) [] = False"
| "lex_lt lt (x # xs) (y # ys) = (lt x y \<or> (x = y \<and> lex_lt lt xs ys))"

definition str_lt :: "string \<Rightarrow> string \<Rightarrow> bool" where
  "str_lt a b = lex_lt (\<lambda>x y. code x < code y) a b"

definition path_lt :: "path \<Rightarrow> path \<Rightarrow> bool" where
  \<comment> \<open>the order of \<open>Path\<close> objects: by their parts\<close>
  "path_lt p q = lex_lt str_lt p q"

fun insert_by :: "('a \<Rightarrow> 'a \<Rightarrow> bool) \<Rightarrow> 'a \<Rightarrow> 'a list \<Rightarrow> 'a list" where
  "insert_by lt x [] = [x]"
| "insert_by lt x (y # ys) = (if \<not> lt y x then x # y # ys else y # insert_by lt x ys)"

definition sort_by :: "('a \<Rightarrow> 'a \<Rightarrow> bool) \<Rightarrow> 'a list \<Rightarrow> 'a list" where
  \<comment> \<open>a stable sort, as \<open>sorted\<close> and \<open>list.sort\<close> are\<close>
  "sort_by lt xs = foldr (insert_by lt) xs []"

section \<open>links.py: the Resolver\<close>

text \<open>
  \<open>fnmatch\<close> is the matcher of \<open>rglob\<close> for one file name, a library function that the
  resolver carries as a parameter; on a pattern without wildcard characters it is
  equality.
\<close>

record resolver =
  ROOT :: path
  mode :: string
  ALL_MD :: "path list"
  BASENAME_INDEX :: "string \<rightharpoonup> path list"
  fnmatch :: "string \<Rightarrow> string \<Rightarrow> bool"

definition index_add :: "(string \<rightharpoonup> path list) \<Rightarrow> string \<Rightarrow> path \<Rightarrow> (string \<rightharpoonup> path list)" where
  \<comment> \<open>\<open>index.setdefault(k, []).append(p)\<close>\<close>
  "index_add idx k p = idx(k \<mapsto> (case idx k of None \<Rightarrow> [] | Some ps \<Rightarrow> ps) @ [p])"

fun index_files :: "(string \<rightharpoonup> path list) \<Rightarrow> path list \<Rightarrow> (string \<rightharpoonup> path list)" where
  "index_files idx [] = idx"
| "index_files idx (p # ps) =
     index_files (index_add (index_add idx (last p) p) (stem_of_name (last p)) p) ps"

definition Resolver :: "filesystem \<Rightarrow> (string \<Rightarrow> string \<Rightarrow> bool) \<Rightarrow> path \<Rightarrow> string \<Rightarrow> resolver" where
  \<comment> \<open>\<open>Resolver.__init__\<close>, for a root that is resolved already\<close>
  "Resolver fs fm root shortest_mode =
     (let all_md = sort_by path_lt (filter (\<lambda>p. is_md_name (last p)) (rglob_files fs root))
      in \<lparr>ROOT = root, mode = shortest_mode, ALL_MD = all_md,
          BASENAME_INDEX = index_files Map.empty all_md, fnmatch = fm\<rparr>)"

definition index_get :: "resolver \<Rightarrow> string \<Rightarrow> path list" where
  \<comment> \<open>\<open>self.BASENAME_INDEX.get(k, [])\<close>\<close>
  "index_get R k = (case BASENAME_INDEX R k of None \<Rightarrow> [] | Some ps \<Rightarrow> ps)"

definition rel_from_root :: "resolver \<Rightarrow> path \<Rightarrow> py_error + string" where
  \<comment> \<open>\<open>path.relative_to(self.ROOT).as_posix()\<close>: a ValueError outside the root\<close>
  "rel_from_root R p =
     (if take (length (ROOT R)) p = ROOT R then Inr (as_posix (drop (length (ROOT R)) p))
      else Inl ValueError)"

definition collect_conflicts :: "resolver \<Rightarrow> string \<Rightarrow> path list" where
  "collect_conflicts R stem_or_name =
     dedup (index_get R stem_or_name @ index_get R (py_stem stem_or_name))"

definition anchor_suffix :: "string option \<Rightarrow> string" where
  \<comment> \<open>\<open>f"#{anchor}"\<close> when the anchor is there and not empty\<close>
  "anchor_suffix anchor = (case anchor of None \<Rightarrow> [] | Some a \<Rightarrow> if a = [] then [] else ''#'' @ a)"

definition split_anchor :: "string \<Rightarrow> string \<times> string option" where
  \<comment> \<open>\<open>if "#" in raw: raw, anchor = raw.split("#", 1)\<close>\<close>
  "split_anchor raw =
     (if CHR ''#'' \<in> set raw then (before CHR ''#'' raw, Some (after CHR ''#'' raw))
      else (raw, None))"

definition candidate_of :: "string \<Rightarrow> string list" where
  \<comment> \<open>\<open>Path(raw)\<close>, with the leading slashes of an absolute path taken off\<close>
  "candidate_of raw =
     (let c = py_parts raw in
      if is_absolute c then py_parts (dropWhile (\<lambda>x. x = CHR ''/'') (as_posix c)) else c)"

definition find_target_path :: "resolver \<Rightarrow> filesystem \<Rightarrow> path \<Rightarrow> string \<Rightarrow> py_error + string" where
  "find_target_path R fs current_file raw0 =
     (let (raw1, anchor) = split_anchor raw0;
          raw = strip raw1
      in if raw = [] then Inr (anchor_suffix anchor)
         else
           let candidate = candidate_of raw;
               base = butlast current_file;
               abs_path = resolve_parts base candidate
           in if list_ex (\<lambda>seg. CHR 0x00 \<in> set seg) candidate then Inl ValueError
              else if path_exists fs abs_path then
                (case rel_from_root R abs_path of
                   Inl e \<Rightarrow> Inl e
                 | Inr rel \<Rightarrow> Inr (strip_md_ext rel @ anchor_suffix anchor))
              else
                let bn = name_of candidate;
                    uniq = dedup (index_get R bn @ index_get R (strip_md_ext bn))
                in if length uniq = 1 then
                     (case rel_from_root R (hd uniq) of
                        Inl e \<Rightarrow> Inl e
                      | Inr rel \<Rightarrow> Inr (strip_md_ext rel @ anchor_suffix anchor))
                   else Inr (strip_md_ext (as_posix candidate) @ anchor_suffix anchor))"

definition conflict_noext :: "resolver \<Rightarrow> string \<Rightarrow> string list" where
  \<comment> \<open>the set \<open>conflict_noext\<close>, as a list without repetitions; a conflict is a file of the
      index, which lies under the root\<close>
  "conflict_noext R stem =
     dedup (map (\<lambda>p. strip_md_ext (as_posix (drop (length (ROOT R)) p))) (collect_conflicts R stem))"

definition unique :: "resolver \<Rightarrow> string \<Rightarrow> string \<Rightarrow> bool" where
  \<comment> \<open>the inner function \<open>unique(sfx)\<close> of \<open>_shortest_suffix_from_vault\<close>\<close>
  "unique R target sfx =
     (let matches = filter (\<lambda>c. endswith c (''/'' @ sfx) \<or> c = sfx)
                           (conflict_noext R (name_of (py_parts target)))
      in length matches = 1 \<and> hd matches = target)"

definition suffix_key_lt :: "string \<Rightarrow> string \<Rightarrow> bool" where
  \<comment> \<open>the order of the keys \<open>(s.count('/') + 1, len(s))\<close>\<close>
  "suffix_key_lt a b =
     (let ka = count_list a CHR ''/'' + 1; kb = count_list b CHR ''/'' + 1
      in ka < kb \<or> (ka = kb \<and> length a < length b))"

definition suffix_candidates :: "string list \<Rightarrow> string list" where
  "suffix_candidates parts =
     sort_by suffix_key_lt
       (map (\<lambda>take. as_posix (drop (length parts - take) parts)) [2..<length parts + 1])"

definition shortest_suffix_from_vault :: "resolver \<Rightarrow> string \<Rightarrow> py_error + string" where
  \<comment> \<open>\<open>candidates[0]\<close> raises an IndexError on an empty list\<close>
  "shortest_suffix_from_vault R target_abs_no_ext =
     (let parts = py_parts target_abs_no_ext;
          stem = name_of parts
      in if length parts = 1 then Inr stem
         else case suffix_candidates parts of
                [] \<Rightarrow> Inl IndexError
              | c0 # cs \<Rightarrow>
                  if unique R target_abs_no_ext c0 then Inr c0
                  else (case filter (unique R target_abs_no_ext) cs of
                          c # _ \<Rightarrow> Inr c
                        | [] \<Rightarrow> Inr target_abs_no_ext))"

definition root_join :: "path \<Rightarrow> string \<Rightarrow> string list" where
  \<comment> \<open>the segments of \<open>root / s\<close>, not normalised: an absolute \<open>s\<close> replaces the root\<close>
  "root_join root s =
     (let ps = py_parts s in if is_absolute ps then drop 1 ps else root @ ps)"

definition with_suffix_empty :: "string list \<Rightarrow> py_error + string list" where
  \<comment> \<open>\<open>p.with_suffix("")\<close>: a ValueError on an empty name\<close>
  "with_suffix_empty ps =
     (if name_of ps = [] then Inl ValueError
      else Inr (butlast ps @ [stem_of_name (name_of ps)]))"

definition shortest_relative_from_current :: "resolver \<Rightarrow> path \<Rightarrow> string \<Rightarrow> string" where
  \<comment> \<open>the \<open>except\<close> branch gives back the target\<close>
  "shortest_relative_from_current R current_file target_abs_no_ext =
     (let base = butlast current_file;
          target = root_join (ROOT R) (target_abs_no_ext @ ''.md'')
      in case with_suffix_empty (py_parts (to_rel base target)) of
           Inl e \<Rightarrow> as_posix (py_parts target_abs_no_ext)
         | Inr rel \<Rightarrow> as_posix rel)"

definition resolve_target_for_text_and_meta ::
    "resolver \<Rightarrow> filesystem \<Rightarrow> path \<Rightarrow> string \<Rightarrow> py_error + (string \<times> string option)" where
  "resolve_target_for_text_and_meta R fs current_file raw =
     (let target0 = before CHR ''|'' raw;
          (target1, anchor) = split_anchor target0;
          target = strip target1
      in if target = [] then Inr (raw, None)
         else case find_target_path R fs current_file target of
                Inl e \<Rightarrow> Inl e
              | Inr abs_no_ext \<Rightarrow>
                  let abs_no_ext_clean = before CHR ''#'' abs_no_ext;
                      shortest = (if mode R = ''relative''
                                  then Inr (shortest_relative_from_current R current_file abs_no_ext_clean)
                                  else shortest_suffix_from_vault R abs_no_ext_clean)
                  in case shortest of
                       Inl e \<Rightarrow> Inl e
                     | Inr sh \<Rightarrow> Inr (sh @ anchor_suffix anchor, Some (abs_no_ext_clean @ ''.md'')))"

section \<open>links.py: attachments\<close>

text \<open>
  \<open>self.ROOT.rglob(pat)\<close> walks the vault and keeps the entries whose file name matches
  the pattern; the files among them are the candidates. The pattern \<open>**\<close> alone selects
  directories only, and a pattern that holds \<open>**\<close> beside other characters is refused
  with a ValueError.
\<close>

definition rglob_name :: "resolver \<Rightarrow> filesystem \<Rightarrow> string \<Rightarrow> py_error + path list" where
  \<comment> \<open>\<open>[f for f in self.ROOT.rglob(pat) if f.is_file()]\<close>\<close>
  "rglob_name R fs pat =
     (if pat = ''**'' then Inr []
      else if contains ''**'' pat then Inl ValueError
      else Inr (filter (\<lambda>p. fnmatch R (last p) pat) (rglob_files fs (ROOT R))))"

fun rglob_exts :: "resolver \<Rightarrow> filesystem \<Rightarrow> string \<Rightarrow> string list \<Rightarrow> py_error + path list" where
  \<comment> \<open>the loop over the extensions, which the first exception ends\<close>
  "rglob_exts R fs name [] = Inr []"
| "rglob_exts R fs name (ext # exts) =
     (case rglob_name R fs (name @ ext) of
        Inl e \<Rightarrow> Inl e
      | Inr found \<Rightarrow>
          (case rglob_exts R fs name exts of
             Inl e \<Rightarrow> Inl e
           | Inr rest \<Rightarrow> Inr (found @ rest)))"

definition asset_candidates :: "resolver \<Rightarrow> filesystem \<Rightarrow> string \<Rightarrow> py_error + path list" where
  \<comment> \<open>the extensions are tried in the order of the list; the order of the candidates does
      not reach the result, which is the least candidate of a sort whose keys are distinct
      for distinct files\<close>
  "asset_candidates R fs name =
     (if CHR ''.'' \<in> set name then rglob_name R fs name
      else rglob_exts R fs name ASSET_EXTS)"


definition rank :: "path \<Rightarrow> path \<Rightarrow> nat \<times> nat \<times> string" where
  \<comment> \<open>the inner function \<open>rank(p)\<close>\<close>
  "rank base p =
     (let same_dir = (if butlast p = base then 0 else 1);
          rel = to_rel base p
      in (same_dir, length rel, rel))"

definition rank_lt :: "path \<Rightarrow> path \<Rightarrow> path \<Rightarrow> bool" where
  \<comment> \<open>the order of the tuples \<open>rank(p)\<close>\<close>
  "rank_lt base p q =
     (case (rank base p, rank base q) of
        ((d1, l1, r1), (d2, l2, r2)) \<Rightarrow>
          d1 < d2 \<or> (d1 = d2 \<and> (l1 < l2 \<or> (l1 = l2 \<and> str_lt r1 r2))))"

definition resolve_asset_for_text :: "resolver \<Rightarrow> filesystem \<Rightarrow> path \<Rightarrow> string \<Rightarrow> py_error + string" where
  "resolve_asset_for_text R fs current_file raw =
     (let target = strip (before CHR ''|'' raw)
      in if target = [] then Inr raw
         else
           let base = butlast current_file;
               name = py_name target
           in case asset_candidates R fs name of
                Inl e \<Rightarrow> Inl e
              | Inr candidates \<Rightarrow>
                  if candidates = [] then Inr name
                  else
                    let best = hd (sort_by (rank_lt base) candidates);
                        rel = to_rel base best
                    in if \<not> (startswith rel ''./'' \<or> startswith rel ''../'') \<and> CHR ''/'' \<in> set rel
                          \<and> \<not> startswith rel ''/''
                       then Inr (''./'' @ rel) else Inr rel)"

section \<open>links.py: the normalization passes\<close>

fun re_sub_err :: "(string \<Rightarrow> ('g \<times> nat) option) \<Rightarrow> ('g \<Rightarrow> string \<Rightarrow> py_error + string) \<Rightarrow> nat \<Rightarrow> string
    \<Rightarrow> py_error + string" where
  \<comment> \<open>\<open>pattern.sub(repl, text)\<close> for a \<open>repl\<close> that may raise: the first exception, from left
      to right, ends the substitution\<close>
  "re_sub_err m repl k [] = Inr []"
| "re_sub_err m repl k (c # cs) =
     (if 0 < k then re_sub_err m repl (k - 1) cs
      else case m (c # cs) of
             None \<Rightarrow> (case re_sub_err m repl 0 cs of Inl e \<Rightarrow> Inl e | Inr r \<Rightarrow> Inr (c # r))
           | Some (g, n) \<Rightarrow>
               (case repl g (take n (c # cs)) of
                  Inl e \<Rightarrow> Inl e
                | Inr s \<Rightarrow> (case re_sub_err m repl (n - 1) cs of
                              Inl e \<Rightarrow> Inl e | Inr r \<Rightarrow> Inr (s @ r))))"

definition is_alpha :: "char \<Rightarrow> bool" where
  \<comment> \<open>\<open>[a-zA-Z]\<close>\<close>
  "is_alpha c = (let n = code c in (65 \<le> n \<and> n \<le> 90) \<or> (97 \<le> n \<and> n \<le> 122))"

definition is_scheme_char :: "char \<Rightarrow> bool" where
  \<comment> \<open>\<open>[a-zA-Z0-9+.-]\<close>\<close>
  "is_scheme_char c = (let n = code c in
     (48 \<le> n \<and> n \<le> 57) \<or> (65 \<le> n \<and> n \<le> 90) \<or> (97 \<le> n \<and> n \<le> 122) \<or>
     n = 43 \<or> n = 46 \<or> n = 45)"

definition is_external :: "string \<Rightarrow> bool" where
  \<comment> \<open>\<open>re.match(r'^(?:[a-zA-Z][a-zA-Z0-9+.-]*:|//)', url)\<close>\<close>
  "is_external url =
     (startswith url ''//'' \<or>
      (case url of [] \<Rightarrow> False
       | c # cs \<Rightarrow> is_alpha c \<and> startswith (dropWhile is_scheme_char cs) '':''))"

definition md_repl :: "resolver \<Rightarrow> filesystem \<Rightarrow> path \<Rightarrow> string \<times> string \<times> string \<Rightarrow> string
    \<Rightarrow> py_error + string" where
  \<comment> \<open>the \<open>repl\<close> of \<open>normalize_md_links_to_wikilinks\<close>; \<open>whole\<close> is \<open>m.group(0)\<close>\<close>
  "md_repl R fs current_file g whole =
     (case g of (bang, text, url0) \<Rightarrow>
        let url = strip url0
        in if startswith url ''#'' then Inr whole
           else if is_external url then Inr whole
           else case find_target_path R fs current_file url of
                  Inl e \<Rightarrow> Inl e
                | Inr target \<Rightarrow>
                    let suffix = lower (py_suffix url)
                    in if bang = ''!'' \<or> suffix \<in> set IMG_EXTS \<or> suffix \<in> set ASSET_EXTS
                       then (case resolve_asset_for_text R fs current_file url of
                               Inl e \<Rightarrow> Inl e
                             | Inr asset_rel \<Rightarrow> Inr (''![['' @ asset_rel @ '']]''))
                       else Inr (''[['' @ target @ '']]''))"

definition normalize_md_links_to_wikilinks :: "resolver \<Rightarrow> filesystem \<Rightarrow> path \<Rightarrow> string
    \<Rightarrow> py_error + string" where
  "normalize_md_links_to_wikilinks R fs current_file text =
     re_sub_err MD_LINK (md_repl R fs current_file) 0 text"

definition split_alias :: "string \<Rightarrow> string \<times> string option" where
  \<comment> \<open>\<open>if "|" in body: target_part, alias = body.split("|", 1)\<close>\<close>
  "split_alias body =
     (if CHR ''|'' \<in> set body then (before CHR ''|'' body, Some (after CHR ''|'' body))
      else (body, None))"

definition alias_suffix :: "string option \<Rightarrow> string" where
  \<comment> \<open>\<open>|{alias}\<close> when \<open>alias is not None\<close>\<close>
  "alias_suffix alias = (case alias of None \<Rightarrow> [] | Some a \<Rightarrow> ''|'' @ a)"

definition wiki_repl :: "resolver \<Rightarrow> filesystem \<Rightarrow> path \<Rightarrow> string \<times> string \<Rightarrow> string
    \<Rightarrow> py_error + string" where
  \<comment> \<open>the \<open>repl\<close> of \<open>normalize_wikilinks_in_text\<close>\<close>
  "wiki_repl R fs current_file g whole =
     (case g of (bang, body) \<Rightarrow>
        case split_alias body of (target_part, alias) \<Rightarrow>
          if bang = ''!'' then
            (case resolve_asset_for_text R fs current_file target_part of
               Inl e \<Rightarrow> Inl e
             | Inr asset_rel \<Rightarrow> Inr (''![['' @ asset_rel @ alias_suffix alias @ '']]''))
          else case resolve_target_for_text_and_meta R fs current_file body of
                 Inl e \<Rightarrow> Inl e
               | Inr (text_target, meta) \<Rightarrow>
                   if text_target = [] \<or> strip text_target = strip body then Inr whole
                   else Inr (''[['' @ text_target @ alias_suffix alias @ '']]''))"

definition normalize_wikilinks_in_text :: "resolver \<Rightarrow> filesystem \<Rightarrow> path \<Rightarrow> string
    \<Rightarrow> py_error + string" where
  "normalize_wikilinks_in_text R fs current_file text =
     re_sub_err WIKI_LINK (wiki_repl R fs current_file) 0 text"

definition normalize :: "resolver \<Rightarrow> filesystem \<Rightarrow> path \<Rightarrow> string \<Rightarrow> py_error + string" where
  \<comment> \<open>the two passes as \<open>process_file\<close> applies them to a body\<close>
  "normalize R fs p body0 =
     (case normalize_md_links_to_wikilinks R fs p body0 of
        Inl e \<Rightarrow> Inl e
      | Inr stage1 \<Rightarrow> normalize_wikilinks_in_text R fs p stage1)"

section \<open>indexer.py: process_file and build_metadata\<close>

text \<open>
  Of the keys of an item the model keeps \<open>fileName\<close>, \<open>relativePath\<close>, \<open>tags\<close>, \<open>links\<close>
  and \<open>backlinks\<close>. The result of \<open>process_file\<close> is the item together with the
  filesystem after the note has been written.
\<close>

definition display_of :: "string option \<Rightarrow> string option" where
  \<comment> \<open>\<open>if display: entry["displayText"] = display\<close>\<close>
  "display_of display = (case display of None \<Rightarrow> None | Some d \<Rightarrow> if d = [] then None else Some d)"

definition wiki_entry :: "resolver \<Rightarrow> filesystem \<Rightarrow> path \<Rightarrow> string \<times> string
    \<Rightarrow> py_error + link_entry option" where
  \<comment> \<open>the body of the loop over the wikilinks; \<open>None\<close> is \<open>continue\<close>\<close>
  "wiki_entry R fs p g =
     (case g of (bang, body) \<Rightarrow>
        if bang = ''!'' then Inr None
        else case split_alias body of (target_part, display) \<Rightarrow>
          case resolve_target_for_text_and_meta R fs p body of
            Inl e \<Rightarrow> Inl e
          | Inr (text_path, meta) \<Rightarrow>
              (case meta of
                 None \<Rightarrow> Inr None
               | Some meta_rel_with_md \<Rightarrow>
                   if meta_rel_with_md = [] then Inr None
                   else if \<not> stat_walk fs [] (root_join (ROOT R) meta_rel_with_md) then Inr None
                   else if CHR ''#'' \<in> set target_part then
                     Inr (Some \<lparr>le_link = ''#'' @ after CHR ''#'' target_part,
                                le_relativePath = meta_rel_with_md,
                                le_cleanLink = Some (py_stem meta_rel_with_md),
                                le_displayText = display_of display\<rparr>)
                   else
                     Inr (Some \<lparr>le_link = py_name target_part,
                                le_relativePath = meta_rel_with_md,
                                le_cleanLink = None,
                                le_displayText = display_of display\<rparr>)))"

fun wiki_entries :: "resolver \<Rightarrow> filesystem \<Rightarrow> path \<Rightarrow> (string \<times> string) list
    \<Rightarrow> py_error + link_entry list" where
  "wiki_entries R fs p [] = Inr []"
| "wiki_entries R fs p (g # gs) =
     (case wiki_entry R fs p g of
        Inl e \<Rightarrow> Inl e
      | Inr en \<Rightarrow>
          (case wiki_entries R fs p gs of
             Inl e \<Rightarrow> Inl e
           | Inr ens \<Rightarrow> Inr ((case en of None \<Rightarrow> [] | Some x \<Rightarrow> [x]) @ ens)))"

definition md_anchor_entry :: "string \<Rightarrow> string \<times> string \<times> string \<Rightarrow> link_entry option" where
  \<comment> \<open>the body of the loop over the Markdown links: only the pure anchors give an entry\<close>
  "md_anchor_entry rel g =
     (case g of (bang, text, url0) \<Rightarrow>
        let url = strip url0
        in if startswith url ''#'' then
             Some \<lparr>le_link = url, le_relativePath = rel, le_cleanLink = Some (py_stem rel),
                   le_displayText = Some (if strip text \<noteq> [] then strip text
                                          else dropWhile (\<lambda>c. c = CHR ''#'') url)\<rparr>
           else None)"

definition link_key :: "link_entry \<Rightarrow> string \<times> string \<times> string option" where
  "link_key L = (le_link L, le_relativePath L, le_displayText L)"

fun uniq_links :: "(string \<times> string \<times> string option) list \<Rightarrow> link_entry list \<Rightarrow> link_entry list" where
  \<comment> \<open>the loop with \<open>seen\<close>: the first entry of every key\<close>
  "uniq_links seen [] = []"
| "uniq_links seen (L # Ls) =
     (if link_key L \<in> set seen then uniq_links seen Ls
      else L # uniq_links (link_key L # seen) Ls)"

definition new_text_of :: "string \<Rightarrow> string \<Rightarrow> string \<Rightarrow> string" where
  \<comment> \<open>the text that is written. \<open>body0 is not original\<close> holds exactly when the parser has
      cut a frontmatter block off, that is when its \<open>body_start\<close> is not 0\<close>
  "new_text_of original body0 norm =
     (if body_start original \<noteq> 0 then
        (let head_len = length original - length body0 in take head_len original @ norm)
      else norm)"

definition process_file :: "resolver \<Rightarrow> filesystem \<Rightarrow> path \<Rightarrow> py_error + (item \<times> filesystem)" where
  "process_file R fs p =
     (case rel_from_root R p of
        Inl e \<Rightarrow> Inl e
      | Inr rel \<Rightarrow>
          let original = read_text fs p in
          case parse_frontmatter_and_tags original of (fm, tags, aliases, body0) \<Rightarrow>
            case normalize R fs p body0 of
              Inl e \<Rightarrow> Inl e
            | Inr norm \<Rightarrow>
                let fs' = (if norm \<noteq> body0 then write_text fs p (new_text_of original body0 norm)
                           else fs)
                in case wiki_entries R fs' p (re_finditer WIKI_LINK 0 norm) of
                     Inl e \<Rightarrow> Inl e
                   | Inr ws \<Rightarrow>
                       let links = uniq_links []
                             (ws @ List.map_filter (md_anchor_entry rel) (re_finditer MD_LINK 0 norm))
                       in Inr (\<lparr>it_fileName = stem_of_name (last p), it_relativePath = rel,
                                 it_tags = (if tags \<noteq> [] then Some tags else None),
                                 it_links = (if links \<noteq> [] then Some links else None),
                                 it_backlinks = None\<rparr>, fs'))"

fun process_files :: "resolver \<Rightarrow> filesystem \<Rightarrow> path list \<Rightarrow> py_error + (item list \<times> filesystem)" where
  \<comment> \<open>\<open>[process_file(p, R) for p in all_md]\<close>, with the filesystem handed on\<close>
  "process_files R fs [] = Inr ([], fs)"
| "process_files R fs (p # ps) =
     (case process_file R fs p of
        Inl e \<Rightarrow> Inl e
      | Inr (it, fs1) \<Rightarrow>
          (case process_files R fs1 ps of
             Inl e \<Rightarrow> Inl e
           | Inr (its, fs2) \<Rightarrow> Inr (it # its, fs2)))"

definition build_metadata :: "filesystem \<Rightarrow> (string \<Rightarrow> string \<Rightarrow> bool) \<Rightarrow> path \<Rightarrow> string
    \<Rightarrow> py_error + (item list \<times> filesystem)" where
  \<comment> \<open>for a root that is resolved already; the list returned is the list that is
      serialised\<close>
  "build_metadata fs fm root shortest_mode =
     (let R = Resolver fs fm root shortest_mode;
          all_md = filter (\<lambda>p. is_md_name (last p)) (rglob_files fs root)
      in case process_files R fs all_md of
           Inl e \<Rightarrow> Inl e
         | Inr (items, fs') \<Rightarrow> Inr (invert_links items, fs'))"

section \<open>Example vaults\<close>

definition c5_A :: item where
  \<comment> \<open>the item of a note \<open>A.md\<close> whose body is \<open>[[B]] [[B|x]]\<close>\<close>
  "c5_A = \<lparr>it_fileName = ''A'', it_relativePath = ''A.md'', it_tags = None,
     it_links = Some [\<lparr>le_link = ''B'', le_relativePath = ''B.md'', le_cleanLink = None,
                        le_displayText = None\<rparr>,
                      \<lparr>le_link = ''B'', le_relativePath = ''B.md'', le_cleanLink = None,
                        le_displayText = Some ''x''\<rparr>],
     it_backlinks = None\<rparr>"

definition c5_B :: item where
  "c5_B = \<lparr>it_fileName = ''B'', it_relativePath = ''B.md'', it_tags = None, it_links = None,
     it_backlinks = None\<rparr>"

definition c2_fs :: filesystem where
  \<comment> \<open>the vault \<open>/v\<close> with the notes \<open>c.md\<close>, \<open>n.md\<close>, \<open>x/a/n.md\<close> and \<open>x/b/n.md\<close>\<close>
  "c2_fs = \<lparr>fs_files = [([''v'', ''c.md''], ''''), ([''v'', ''n.md''], ''''),
                         ([''v'', ''x'', ''a'', ''n.md''], ''''), ([''v'', ''x'', ''b'', ''n.md''], '''')],
            fs_dirs = []\<rparr>"

definition c2_R :: resolver where
  "c2_R = Resolver c2_fs (=) [''v''] ''vault''"



definition c4_head :: string where
  \<comment> \<open>a frontmatter block of three lines\<close>
  "c4_head = ''---'' @ [CHR 0x0A] @ ''t: x'' @ [CHR 0x0A] @ ''---'' @ [CHR 0x0A]"

definition c4_fs :: filesystem where
  \<comment> \<open>the note \<open>a.md\<close> is the frontmatter block, the line \<open>[a](b.md)\<close> and a final newline\<close>
  "c4_fs = \<lparr>fs_files = [([''v'', ''a.md''], c4_head @ ''[a](b.md)'' @ [CHR 0x0A]),
                         ([''v'', ''b.md''], '''')],
            fs_dirs = []\<rparr>"

definition c1_fs :: filesystem where
  \<comment> \<open>the vault \<open>/v\<close> with the notes \<open>d/a.md\<close> and \<open>d/d.md\<close>\<close>
  "c1_fs = \<lparr>fs_files = [([''v'', ''d'', ''a.md''], ''[[missing]]''), ([''v'', ''d'', ''d.md''], '''')],
            fs_dirs = []\<rparr>"

definition c6_fs :: filesystem where
  \<comment> \<open>the note \<open>a.md\<close> beside a directory that is called \<open>d.md\<close>\<close>
  "c6_fs = \<lparr>fs_files = [([''v'', ''a.md''], ''[[d]]''), ([''v'', ''d.md'', ''x.txt''], '''')],
            fs_dirs = []\<rparr>"

definition c8_fs :: filesystem where
  \<comment> \<open>a vault whose directory walk lists \<open>b.md\<close> before \<open>a.md\<close>\<close>
  "c8_fs = \<lparr>fs_files = [([''v'', ''b.md''], ''''), ([''v'', ''a.md''], '''')], fs_dirs = []\<rparr>"

definition c5_fs :: filesystem where
  \<comment> \<open>the vault of the two notes: \<open>A.md\<close> links to \<open>B.md\<close> twice\<close>
  "c5_fs = \<lparr>fs_files = [([''v'', ''A.md''], ''[[B]] [[B|x]]''), ([''v'', ''B.md''], '''')],
            fs_dirs = []\<rparr>"

section \<open>Backlink inversion\<close>

lemma c5_items_of_vault:
  "map_sum id fst (process_files (Resolver c5_fs (=) [''v''] ''vault'') c5_fs
      [[''v'', ''A.md''], [''v'', ''B.md'']]) = Inr [c5_A, c5_B]"
  by code_simp


lemma get_list_forward_links:
  "get_list (forward_links fw src lns) k =
     get_list fw k @ map (\<lambda>_. src) (filter (\<lambda>ln. le_relativePath ln = k) lns)"
  by (induction lns arbitrary: fw) (auto simp: get_list_def)

lemma get_list_forward_items:
  "get_list (forward_items fw items) k = get_list fw k @ sources_of k items"
  by (induction items arbitrary: fw) (auto simp: sources_of_def get_list_forward_links)

lemma get_list_forward_empty:
  "get_list (forward_items Map.empty items) k = sources_of k items"
  by (simp add: get_list_forward_items) (simp add: get_list_def)


text \<open>
  C5, as amended. After the inversion the item of a file \<open>B\<close> carries one backlink entry
  for every link entry, of any item \<open>A\<close>, whose \<open>relativePath\<close> is the path of \<open>B\<close>: the
  entries come in scan order, and a source is repeated as often as it links to \<open>B\<close>. In
  each entry \<open>fileName\<close> is the stem of the source and \<open>relativePath\<close> its path, and
  \<open>link\<close> and \<open>displayText\<close> are both the stem of \<open>B\<close> itself. An item that no link entry
  points to is left as it was, so it gets no \<open>backlinks\<close> field, and no other field of any
  item changes.
\<close>

theorem backlinks_inverted:
  assumes "i < length items"
  shows "invert_links items ! i =
     (let b = items ! i; srcs = sources_of (it_relativePath b) items in
      if srcs = [] then b
      else b\<lparr>it_backlinks :=
             Some (map (\<lambda>src. \<lparr>bl_fileName = py_stem src, bl_link = py_stem (it_relativePath b),
                                  bl_relativePath = src,
                                  bl_displayText = py_stem (it_relativePath b)\<rparr>) srcs)\<rparr>)"
  using assms
  by (simp add: invert_links_def set_backlinks_def get_list_forward_empty Let_def backlink_of_def
           cong: map_cong)

text \<open>
  C5, witness: the theorem at the item of \<open>B.md\<close> in the two-note vault, where it gives
  the two entries of the source \<open>A.md\<close>, field by field.
\<close>

theorem backlinks_inverted_witness:
  "(1::nat) < length [c5_A, c5_B] \<and>
   invert_links [c5_A, c5_B] ! 1 =
     c5_B\<lparr>it_backlinks :=
       Some [\<lparr>bl_fileName = ''A'', bl_link = ''B'', bl_relativePath = ''A.md'', bl_displayText = ''B''\<rparr>,
             \<lparr>bl_fileName = ''A'', bl_link = ''B'', bl_relativePath = ''A.md'', bl_displayText = ''B''\<rparr>]\<rparr>"
proof -
  have len: "(1::nat) < length [c5_A, c5_B]" by simp
  have src: "sources_of ''B.md'' [c5_A, c5_B] = [''A.md'', ''A.md'']"
    by (simp add: sources_of_def get_links_def c5_A_def c5_B_def)
  have stem: "py_stem ''B.md'' = ''B''" "py_stem ''A.md'' = ''A''"
    by (simp_all add: py_stem_def py_name_def name_of_def py_parts_def stem_of_name_def
        rfind_dot_def is_absolute_def is_root_part_def startswith_def)
  have rp: "it_relativePath c5_B = ''B.md''" by (simp add: c5_B_def)
  show ?thesis
    using backlinks_inverted [OF len] src stem rp by (simp add: Let_def)
qed

text \<open>
  C5, counterexample to the claim as stated: \<open>A.md\<close> links to \<open>B.md\<close> twice (two link
  entries that differ in their display text, so the deduplication of \<open>process_file\<close>
  keeps both), and \<open>B.md\<close> gets two backlink entries from the one source file.
\<close>

theorem backlinks_one_per_source_counterexample:
  "map bl_relativePath (the (it_backlinks (invert_links [c5_A, c5_B] ! 1))) = [''A.md'', ''A.md'']
   \<and> remdups (sources_of ''B.md'' [c5_A, c5_B]) = [''A.md'']"
  by (simp add: invert_links_def set_backlinks_def get_list_def Let_def c5_A_def c5_B_def
      get_links_def backlink_of_def sources_of_def)


section \<open>The deploy webhook\<close>

lemma webhook_launch_iff:
  "launched (webhook mac secret sig body) \<longleftrightarrow> verify mac secret sig body = Inr True"
  by (auto simp: webhook_def split: sum.splits)

lemma webhook_no_secret:
  "webhook mac [] sig body = \<lparr>status = 403, launched = False\<rparr>"
  by (simp add: webhook_def verify_def)

text \<open>
  C10, the code at the failing input: with a secret configured, a request whose
  \<open>X-Hub-Signature-256\<close> header is \<open>sha256=\<close> followed by the code point 233 fails the
  verification, but \<open>hmac.compare_digest\<close> raises a TypeError on the non-ASCII \<open>str\<close>, so
  the answer is 500 and not 403. The script is not launched.
\<close>

theorem webhook_non_ascii_header:
  "webhook mac ''s'' (Some (''sha256='' @ [char_of (233::nat)])) body
     = \<lparr>status = 500, launched = False\<rparr>"
  by (simp add: webhook_def verify_def compare_digest_def is_ascii_def startswith_def)


section \<open>Inline tags\<close>

text \<open>
  C9, the code at the failing input: the body is one inline code span, \<open>`#foo`\<close>, and
  \<open>parse_frontmatter_and_tags\<close> returns the tag \<open>foo\<close> from inside it. The function
  replaces the links by a space and scans the rest; it never masks the code spans
  (the masking of \<open>CodeMasker\<close> is only called by \<open>extract_inline_tags\<close> of tags.py,
  which \<open>parse_frontmatter_and_tags\<close> does not use).
\<close>

theorem tag_collected_inside_code_span:
  "fst (snd (parse_frontmatter_and_tags ''`#foo`'')) = [''foo'']"
  by (simp add: parse_frontmatter_and_tags_def frontmatter_def body_of_def body_start_def
      FM_START_def is_linebreak_def code_def is_space_def startswith_def fm_get_list_def
      merge_tags_def inline_tags_def WIKI_LINK_def MD_LINK_def md_link_at_def is_word_def
      is_tag_char_def Let_def)


section \<open>Shortest references in vault mode\<close>

lemma insert_by_not_Nil: "insert_by lt x ys \<noteq> []"
  by (cases ys) simp_all

lemma sort_by_Nil: "sort_by lt xs = [] \<longleftrightarrow> xs = []"
  by (cases xs) (simp_all add: sort_by_def insert_by_not_Nil)

lemma set_insert_by: "set (insert_by lt x ys) = insert x (set ys)"
  by (induction ys) auto

lemma set_sort_by: "set (sort_by lt xs) = set xs"
  by (induction xs) (simp_all add: sort_by_def set_insert_by)

lemma suffix_candidates_not_Nil: "2 \<le> length parts \<Longrightarrow> suffix_candidates parts \<noteq> []"
  by (simp add: suffix_candidates_def sort_by_Nil)

lemma ROOT_Resolver: "ROOT (Resolver fs fm root shortest_mode) = root"
  by (simp add: Resolver_def Let_def)

lemma unique_iff:
  "unique R t s \<longleftrightarrow>
   filter (\<lambda>c. endswith c (''/'' @ s) \<or> c = s) (conflict_noext R (name_of (py_parts t))) = [t]"
  unfolding unique_def Let_def
  by (cases "filter (\<lambda>c. endswith c (''/'' @ s) \<or> c = s) (conflict_noext R (name_of (py_parts t)))")
     auto

lemma sort_by_sorted:
  "sorted_wrt (\<lambda>a b. \<not> lt b a) xs \<Longrightarrow> sort_by lt xs = xs"
proof (induction xs)
  case Nil
  then show ?case by (simp add: sort_by_def)
next
  case (Cons x xs)
  then have ih: "sort_by lt xs = xs" and le: "\<forall>y \<in> set xs. \<not> lt y x" by simp_all
  have "sort_by lt (x # xs) = insert_by lt x (sort_by lt xs)" by (simp add: sort_by_def)
  also have "\<dots> = insert_by lt x xs" by (simp add: ih)
  also have "\<dots> = x # xs" using le by (cases xs) simp_all
  finally show ?case .
qed

lemma count_join_ge:
  "count_list (as_posix ps) CHR ''/'' \<le> count_list (join ''/'' ps) CHR ''/''"
proof (cases ps)
  case Nil
  then show ?thesis by (simp add: as_posix_def)
next
  case (Cons r rest)
  then show ?thesis by (cases rest) (simp_all add: as_posix_def)
qed

lemma count_as_posix_Cons:
  assumes "rest \<noteq> []"
  shows "count_list (as_posix rest) CHR ''/'' < count_list (as_posix (x # rest)) CHR ''/''"
proof -
  from assms obtain y ys where r: "rest = y # ys" by (cases rest) auto
  have j: "count_list (as_posix rest) CHR ''/'' \<le> count_list (join ''/'' rest) CHR ''/''"
    by (rule count_join_ge)
  show ?thesis
  proof (cases "is_root_part x")
    case True
    then have "0 < count_list x CHR ''/''" by (auto simp: is_root_part_def)
    moreover from True have "as_posix (x # rest) = x @ join ''/'' rest" by (simp add: as_posix_def)
    ultimately show ?thesis using j by simp
  next
    case False
    then have "as_posix (x # rest) = x @ ''/'' @ join ''/'' rest" by (simp add: as_posix_def r)
    then show ?thesis using j by simp
  qed
qed

lemma count_suffix_step:
  assumes "1 \<le> k" and "k < length parts"
  shows "count_list (as_posix (drop (length parts - k) parts)) CHR ''/''
       < count_list (as_posix (drop (length parts - Suc k) parts)) CHR ''/''"
proof -
  from assms have i: "length parts - Suc k < length parts" by simp
  from assms have s: "Suc (length parts - Suc k) = length parts - k" by simp
  have "drop (length parts - Suc k) parts =
        parts ! (length parts - Suc k) # drop (length parts - k) parts"
    using Cons_nth_drop_Suc [OF i] s by simp
  moreover from assms have "drop (length parts - k) parts \<noteq> []" by simp
  ultimately show ?thesis using count_as_posix_Cons by simp
qed

lemma count_suffix_mono:
  assumes "1 \<le> i" and "i < j" and "j \<le> length parts"
  shows "count_list (as_posix (drop (length parts - i) parts)) CHR ''/''
       < count_list (as_posix (drop (length parts - j) parts)) CHR ''/''"
  using assms(2,3)
proof (induction j)
  case 0
  then show ?case by simp
next
  case (Suc j)
  from Suc.prems assms(1) have st: "count_list (as_posix (drop (length parts - j) parts)) CHR ''/''
       < count_list (as_posix (drop (length parts - Suc j) parts)) CHR ''/''"
    by (intro count_suffix_step) simp_all
  show ?case
  proof (cases "i = j")
    case True
    with st show ?thesis by simp
  next
    case False
    with Suc.prems have "i < j" "j \<le> length parts" by simp_all
    with Suc.IH st show ?thesis by simp
  qed
qed

lemma sorted_wrt_upt_I:
  assumes "\<And>i j. a \<le> i \<Longrightarrow> i < j \<Longrightarrow> j < b \<Longrightarrow> P i j"
  shows "sorted_wrt P [a..<b]"
  using assms
proof (induction b)
  case 0
  then show ?case by simp
next
  case (Suc b)
  then have "sorted_wrt P [a..<b]" by simp
  with Suc.prems show ?case by (cases "a \<le> b") (auto simp: sorted_wrt_append)
qed

lemma suffix_key_mono:
  assumes "1 \<le> i" and "i < j" and "j \<le> length parts"
  shows "\<not> suffix_key_lt (as_posix (drop (length parts - j) parts))
                          (as_posix (drop (length parts - i) parts))"
  using count_suffix_mono [OF assms] by (simp add: suffix_key_lt_def Let_def)

lemma suffix_candidates_order:
  "suffix_candidates parts =
     map (\<lambda>k. as_posix (drop (length parts - k) parts)) [2..<length parts + 1]"
proof -
  have "sorted_wrt (\<lambda>a b. \<not> suffix_key_lt b a)
          (map (\<lambda>k. as_posix (drop (length parts - k) parts)) [2..<length parts + 1])"
    unfolding sorted_wrt_map
  proof (rule sorted_wrt_upt_I)
    fix i j :: nat
    assume "2 \<le> i" "i < j" "j < length parts + 1"
    then show "\<not> suffix_key_lt (as_posix (drop (length parts - j) parts))
                                  (as_posix (drop (length parts - i) parts))"
      by (intro suffix_key_mono) simp_all
  qed
  then show ?thesis unfolding suffix_candidates_def by (rule sort_by_sorted)
qed

lemma filter_map_upt_first:
  "filter P (map f [a..<b]) = y # ys \<Longrightarrow>
     \<exists>k. a \<le> k \<and> k < b \<and> y = f k \<and> P (f k) \<and> (\<forall>j. a \<le> j \<and> j < k \<longrightarrow> \<not> P (f j))"
proof (induction "b - a" arbitrary: a)
  case 0
  then show ?case by simp
next
  case (Suc d)
  then have ab: "a < b" by simp
  then have u: "[a..<b] = a # [Suc a..<b]" by (rule upt_conv_Cons)
  show ?case
  proof (cases "P (f a)")
    case True
    with Suc.prems u have "y = f a" by simp
    with True ab show ?thesis by (intro exI [of _ a]) auto
  next
    case False
    with Suc.prems u have f: "filter P (map f [Suc a..<b]) = y # ys" by simp
    from Suc.hyps(2) have "d = b - Suc a" by simp
    from Suc.hyps(1) [OF this f] obtain k where
      k: "Suc a \<le> k" "k < b" "y = f k" "P (f k)" and
      l: "\<forall>j. Suc a \<le> j \<and> j < k \<longrightarrow> \<not> P (f j)" by blast
    have "\<forall>j. a \<le> j \<and> j < k \<longrightarrow> \<not> P (f j)"
    proof (intro allI impI)
      fix j assume j: "a \<le> j \<and> j < k"
      show "\<not> P (f j)"
      proof (cases "j = a")
        case True
        with False show ?thesis by simp
      next
        case False
        with j l show ?thesis by simp
      qed
    qed
    with k show ?thesis by (intro exI [of _ k]) auto
  qed
qed

lemma filter_map_upt_none:
  "filter P (map f [a..<b]) = [] \<Longrightarrow> \<forall>j. a \<le> j \<and> j < b \<longrightarrow> \<not> P (f j)"
  by (auto simp: filter_empty_conv)

lemma first_unique:
  "shortest_suffix_from_vault R t =
     (let parts = py_parts t in
      if length parts = 1 then Inr (name_of parts)
      else if suffix_candidates parts = [] then Inl IndexError
      else case filter (unique R t) (suffix_candidates parts) of
             c # _ \<Rightarrow> Inr c | [] \<Rightarrow> Inr t)"
  by (cases "suffix_candidates (py_parts t)")
     (simp_all add: shortest_suffix_from_vault_def Let_def)

lemma shortest_suffix_first_unique:
  assumes "py_parts t \<noteq> []" and "length (py_parts t) \<noteq> 1"
  shows "\<exists>r. shortest_suffix_from_vault R t = Inr r \<and>
     ((\<exists>k. 2 \<le> k \<and> k \<le> length (py_parts t) \<and>
            r = as_posix (drop (length (py_parts t) - k) (py_parts t)) \<and>
            unique R t (as_posix (drop (length (py_parts t) - k) (py_parts t))) \<and>
            (\<forall>j. 2 \<le> j \<and> j < k \<longrightarrow>
                 \<not> unique R t (as_posix (drop (length (py_parts t) - j) (py_parts t)))))
      \<or> (r = t \<and> (\<forall>j. 2 \<le> j \<and> j \<le> length (py_parts t) \<longrightarrow>
                      \<not> unique R t (as_posix (drop (length (py_parts t) - j) (py_parts t))))))"
proof -
  let ?n = "length (py_parts t)"
  let ?cand = "\<lambda>k. as_posix (drop (?n - k) (py_parts t))"
  from assms have n: "2 \<le> ?n" by (cases "?n") auto
  have sc: "suffix_candidates (py_parts t) = map ?cand [2..<?n + 1]"
    by (rule suffix_candidates_order)
  from n have ne: "suffix_candidates (py_parts t) \<noteq> []" by (rule suffix_candidates_not_Nil)
  have res: "shortest_suffix_from_vault R t =
     (case filter (unique R t) (map ?cand [2..<?n + 1]) of c # _ \<Rightarrow> Inr c | [] \<Rightarrow> Inr t)"
    using assms(2) ne unfolding first_unique [of R t] Let_def sc by simp
  show ?thesis
  proof (cases "filter (unique R t) (map ?cand [2..<?n + 1])")
    case Nil
    from filter_map_upt_none [OF Nil]
    have "\<forall>j. 2 \<le> j \<and> j \<le> ?n \<longrightarrow> \<not> unique R t (?cand j)" by simp
    moreover from Nil res have "shortest_suffix_from_vault R t = Inr t" by simp
    ultimately show ?thesis by blast
  next
    case (Cons c cs)
    from filter_map_upt_first [OF Cons] obtain k where
      k: "2 \<le> k" "k < ?n + 1" "c = ?cand k" "unique R t (?cand k)" and
      l: "\<forall>j. 2 \<le> j \<and> j < k \<longrightarrow> \<not> unique R t (?cand j)" by blast
    from k(2) have kn: "k \<le> ?n" by simp
    from Cons res have "shortest_suffix_from_vault R t = Inr c" by simp
    with k kn l show ?thesis by blast
  qed
qed

lemma set_dedup: "set (dedup xs) = set xs"
  by (induction xs rule: dedup.induct) auto

lemma index_files_get:
  "set (case index_files idx ps k of None \<Rightarrow> [] | Some x \<Rightarrow> x) =
   set (case idx k of None \<Rightarrow> [] | Some x \<Rightarrow> x) \<union>
     {p \<in> set ps. last p = k \<or> stem_of_name (last p) = k}"
proof (induction ps arbitrary: idx)
  case Nil
  then show ?case by simp
next
  case (Cons p ps)
  show ?case
    unfolding index_files.simps Cons.IH
    by (auto simp: index_add_def split: option.splits if_splits)
qed

lemma index_get_Resolver:
  "set (index_get (Resolver fs fm root shortest_mode) k) =
     {p \<in> set (rglob_files fs root).
        is_md_name (last p) \<and> (last p = k \<or> stem_of_name (last p) = k)}"
  using index_files_get [of Map.empty
      "sort_by path_lt (filter (\<lambda>p. is_md_name (last p)) (rglob_files fs root))" k]
  by (auto simp: index_get_def Resolver_def Let_def set_sort_by)

lemma conflict_noext_Resolver:
  "set (conflict_noext (Resolver fs fm root shortest_mode) stem) =
     (\<lambda>p. strip_md_ext (as_posix (drop (length root) p))) `
       {p \<in> set (rglob_files fs root).
          is_md_name (last p) \<and>
          (last p = stem \<or> stem_of_name (last p) = stem \<or>
           last p = py_stem stem \<or> stem_of_name (last p) = py_stem stem)}"
  by (auto simp: conflict_noext_def collect_conflicts_def set_dedup index_get_Resolver
        ROOT_Resolver)

text \<open>
  C2, as amended. For a target \<open>t\<close> (root-relative, without extension) that has at least
  one segment, \<open>_shortest_suffix_from_vault\<close> returns a reference \<open>r\<close>. For a target of
  one segment, a note at the root, \<open>r\<close> is the bare stem, whatever other notes share it.
  Otherwise the candidates are the last \<open>k\<close> segments of \<open>t\<close>, for \<open>k\<close> from 2 to the
  number of segments, and they are tried from the shortest on: \<open>r\<close> is the first
  candidate such that, among the extension-stripped paths of the notes that share the
  stem, \<open>t\<close> is the only one that is the candidate or ends with \<open>/\<close> and the candidate;
  when no candidate is unique in that sense, \<open>r\<close> is \<open>t\<close> itself. Nothing is said about
  resolving \<open>r\<close> again. For a resolver built from a vault, the paths compared are those
  of the Markdown files under the root whose name or stem is the stem of the target
  (lemma \<open>conflict_noext_Resolver\<close>).
\<close>

theorem shortest_suffix_from_vault_result:
  assumes "py_parts t \<noteq> []"
  shows "\<exists>r. shortest_suffix_from_vault R t = Inr r \<and>
     (let parts = py_parts t; n = length parts;
          cand = (\<lambda>k. as_posix (drop (n - k) parts));
          uniq = (\<lambda>s. filter (\<lambda>c. endswith c (''/'' @ s) \<or> c = s)
                          (conflict_noext R (name_of parts)) = [t])
      in if n = 1 then r = name_of parts
         else (\<exists>k. 2 \<le> k \<and> k \<le> n \<and> r = cand k \<and> uniq (cand k) \<and>
                   (\<forall>j. 2 \<le> j \<and> j < k \<longrightarrow> \<not> uniq (cand j)))
              \<or> (r = t \<and> (\<forall>j. 2 \<le> j \<and> j \<le> n \<longrightarrow> \<not> uniq (cand j))))"
proof (cases "length (py_parts t) = 1")
  case True
  then show ?thesis by (simp add: shortest_suffix_from_vault_def Let_def)
next
  case False
  from shortest_suffix_first_unique [OF assms False, of R] False
  show ?thesis unfolding Let_def unique_iff by simp
qed

text \<open>
  C2, witness: in the vault with \<open>n.md\<close>, \<open>x/a/n.md\<close> and \<open>x/b/n.md\<close>, the reference to
  \<open>x/a/n\<close> is \<open>a/n\<close>, its last two segments, and \<open>x/a/n\<close> is the only note with the
  stem \<open>n\<close> whose path ends with it.
\<close>

theorem shortest_suffix_from_vault_result_witness:
  "py_parts ''x/a/n'' \<noteq> [] \<and> shortest_suffix_from_vault c2_R ''x/a/n'' = Inr ''a/n'' \<and>
   as_posix (drop (length (py_parts ''x/a/n'') - 2) (py_parts ''x/a/n'')) = ''a/n'' \<and>
   filter (\<lambda>c. endswith c (''/'' @ ''a/n'') \<or> c = ''a/n'') (conflict_noext c2_R ''n'') = [''x/a/n'']"
proof -
  have p: "py_parts ''x/a/n'' \<noteq> []" by code_simp
  have l: "length (py_parts ''x/a/n'') \<noteq> 1" by code_simp
  have h: "shortest_suffix_from_vault c2_R ''x/a/n'' = Inr ''a/n''" by code_simp
  have c: "as_posix (drop (length (py_parts ''x/a/n'') - 2) (py_parts ''x/a/n'')) = ''a/n''"
    by code_simp
  have nm: "name_of (py_parts ''x/a/n'') = ''n''" by code_simp
  have ne: "''a/n'' \<noteq> ''x/a/n''" by simp
  from shortest_suffix_from_vault_result [OF p, of c2_R] h l ne
  have "filter (\<lambda>c. endswith c (''/'' @ ''a/n'') \<or> c = ''a/n'')
          (conflict_noext c2_R (name_of (py_parts ''x/a/n''))) = [''x/a/n'']"
    unfolding Let_def by auto
  with p h c show ?thesis unfolding nm by blast
qed

text \<open>
  C2, counterexample to the claim as stated, in the same vault. The three notes \<open>n.md\<close>,
  \<open>x/a/n.md\<close> and \<open>x/b/n.md\<close> share a basename. The reference to the note at the root is
  the bare stem \<open>n\<close>, which is not unique: the paths of the two other notes end with
  \<open>/n\<close>. The reference to \<open>x/a/n\<close> is \<open>a/n\<close>, and \<open>find_target_path\<close> from the note
  \<open>c.md\<close> at the root gives back \<open>a/n\<close>, not \<open>x/a/n\<close>: it looks for \<open>a/n\<close> beside the
  current note and for the basename \<open>n\<close> in the index, which has three entries, and
  then keeps what was typed.
\<close>

theorem shortest_suffix_round_trip_counterexample:
  "shortest_suffix_from_vault c2_R ''n'' = Inr ''n'' \<and> \<not> unique c2_R ''n'' ''n''
   \<and> shortest_suffix_from_vault c2_R ''x/a/n'' = Inr ''a/n''
   \<and> find_target_path c2_R c2_fs [''v'', ''c.md''] ''a/n'' = Inr ''a/n''"
  by code_simp


section \<open>Resolution of a note target\<close>

lemma find_target_path_literal:
  assumes "CHR ''#'' \<notin> set raw" and "strip raw \<noteq> []"
    and "\<not> list_ex (\<lambda>seg. CHR 0x00 \<in> set seg) (candidate_of (strip raw))"
    and "\<not> path_exists fs (resolve_parts (butlast cur) (candidate_of (strip raw)))"
    and "length (dedup (index_get R (name_of (candidate_of (strip raw))) @
                        index_get R (strip_md_ext (name_of (candidate_of (strip raw)))))) \<noteq> 1"
  shows "find_target_path R fs cur raw = Inr (strip_md_ext (as_posix (candidate_of (strip raw))))"
  using assms by (simp add: find_target_path_def split_anchor_def anchor_suffix_def Let_def)

lemma find_target_path_literal_anchor:
  assumes "CHR ''#'' \<in> set raw" and "strip (before CHR ''#'' raw) \<noteq> []"
    and "\<not> list_ex (\<lambda>seg. CHR 0x00 \<in> set seg) (candidate_of (strip (before CHR ''#'' raw)))"
    and "\<not> path_exists fs (resolve_parts (butlast cur) (candidate_of (strip (before CHR ''#'' raw))))"
    and "length (dedup (index_get R (name_of (candidate_of (strip (before CHR ''#'' raw)))) @
                        index_get R (strip_md_ext (name_of (candidate_of (strip (before CHR ''#'' raw))))))) \<noteq> 1"
  shows "find_target_path R fs cur raw =
         Inr (strip_md_ext (as_posix (candidate_of (strip (before CHR ''#'' raw))))
              @ anchor_suffix (Some (after CHR ''#'' raw)))"
  using assms by (simp add: find_target_path_def split_anchor_def Let_def)

text \<open>
  C3, the code at the failing input: the vault is \<open>/v\<close>, the current note is \<open>/v/a.md\<close>
  and the target typed is \<open>..\<close>. The path \<open>(base / candidate).resolve()\<close> is \<open>/\<close>,
  which exists, so \<open>find_target_path\<close> calls \<open>rel_from_root\<close> on it, and
  \<open>relative_to\<close> raises a ValueError for a path outside the root. Nothing catches it.
  Where the target does not exist and the index has no single match, the typed path
  does come back (lemmas \<open>find_target_path_literal\<close> and
  \<open>find_target_path_literal_anchor\<close>).
\<close>

theorem find_target_path_raises_outside_root:
  "find_target_path (R\<lparr>ROOT := [''v'']\<rparr>) fs [''v'', ''a.md''] ''..'' = Inl ValueError"
  by (simp add: find_target_path_def split_anchor_def strip_def is_space_def candidate_of_def
      py_parts_def startswith_def is_absolute_def is_root_part_def path_exists_def is_dir_def
      rel_from_root_def Let_def)


section \<open>Attachments\<close>


subsection \<open>The least candidate\<close>










subsection \<open>A relative path leads back to the file\<close>




















subsection \<open>The candidates\<close>

lemma rglob_files_iff:
  "p \<in> set (rglob_files fs root) \<longleftrightarrow>
     is_file fs p \<and> length root < length p \<and> take (length root) p = root"
  by (auto simp: rglob_files_def is_file_def)









subsection \<open>The result\<close>






section \<open>Rewriting a note\<close>

lemma process_file_written:
  assumes "process_file R fs p = Inr (it, fs')"
    and "normalize R fs p (body_of (read_text fs p)) = Inr norm"
  shows "fs' = (if norm \<noteq> body_of (read_text fs p)
                then write_text fs p (new_text_of (read_text fs p) (body_of (read_text fs p)) norm)
                else fs)"
  using assms
  by (auto simp: process_file_def parse_frontmatter_and_tags_def Let_def
           split: sum.splits prod.splits if_splits)

lemma new_text_of_no_frontmatter:
  "body_start original = 0 \<Longrightarrow> new_text_of original body0 norm = norm"
  by (simp add: new_text_of_def)

text \<open>
  C4, the code at the failing input: the note \<open>a.md\<close> is a frontmatter block of three
  lines, the line \<open>[a](b.md)\<close> and a final newline. The body that the parser returns is
  \<open>[a](b.md)\<close>, without the newline, since it is joined from \<open>splitlines\<close>; it is
  normalized to \<open>[[b]]\<close>. The length of the head is taken as the length of the text less
  the length of that body, which is one more than the length of the frontmatter block, so
  the text written is the block, then the first character \<open>[\<close> of the old body, then
  the normalized body.
\<close>

theorem process_file_keeps_body_prefix:
  "body_of (c4_head @ ''[a](b.md)'' @ [CHR 0x0A]) = ''[a](b.md)'' \<and>
   normalize (Resolver c4_fs (=) [''v''] ''vault'') c4_fs [''v'', ''a.md''] ''[a](b.md)'' = Inr ''[[b]]'' \<and>
   map_sum id (\<lambda>(it, fs'). read_text fs' [''v'', ''a.md''])
     (process_file (Resolver c4_fs (=) [''v''] ''vault'') c4_fs [''v'', ''a.md''])
     = Inr (c4_head @ ''[[[b]]'')"
  by code_simp


section \<open>The order of the items\<close>

lemma process_file_relativePath:
  "process_file R fs p = Inr (it, fs') \<Longrightarrow>
     it_relativePath it = as_posix (drop (length (ROOT R)) p)"
  by (auto simp: process_file_def rel_from_root_def Let_def
           split: sum.splits prod.splits if_splits)

lemma process_files_relativePath:
  "process_files R fs ps = Inr (its, fs') \<Longrightarrow>
     map it_relativePath its = map (\<lambda>p. as_posix (drop (length (ROOT R)) p)) ps"
proof (induction ps arbitrary: fs its fs')
  case Nil
  then show ?case by simp
next
  case (Cons p ps)
  from Cons.prems obtain it fs1 its' where
    pf: "process_file R fs p = Inr (it, fs1)" and
    ps: "process_files R fs1 ps = Inr (its', fs')" and
    eq: "its = it # its'"
    by (auto split: sum.splits prod.splits)
  from Cons.IH [OF ps] process_file_relativePath [OF pf] eq show ?case by simp
qed

lemma invert_links_relativePath:
  "map it_relativePath (invert_links items) = map it_relativePath items"
  by (simp add: invert_links_def set_backlinks_def Let_def comp_def)

lemma build_metadata_one_item_per_note:
  assumes "build_metadata fs fm root shortest_mode = Inr (items, fs')"
  shows "map it_relativePath items =
         map (\<lambda>p. as_posix (drop (length root) p))
             (filter (\<lambda>p. is_md_name (last p)) (rglob_files fs root))"
proof -
  from assms obtain its where
    ps: "process_files (Resolver fs fm root shortest_mode) fs
           (filter (\<lambda>p. is_md_name (last p)) (rglob_files fs root)) = Inr (its, fs')"
    and eq: "items = invert_links its"
    by (auto simp: build_metadata_def Let_def split: sum.splits prod.splits)
  from process_files_relativePath [OF ps] eq show ?thesis
    by (simp add: invert_links_relativePath ROOT_Resolver)
qed

text \<open>
  C8, the code at the failing input: a vault with the notes \<open>a.md\<close> and \<open>b.md\<close> whose
  directory walk lists \<open>b.md\<close> first. \<open>build_metadata\<close> returns one item for each
  note, in the order of the walk, \<open>b.md\<close> before \<open>a.md\<close>: it takes the notes from a
  second \<open>rglob\<close> that it does not sort, and not from the sorted list \<open>ALL_MD\<close> of the
  resolver, where \<open>a.md\<close> is first. For every vault the items are those of the notes in
  the order of the walk (lemma \<open>build_metadata_one_item_per_note\<close>).
\<close>

theorem build_metadata_walk_order:
  "map_sum id (\<lambda>(items, fs'). map it_relativePath items) (build_metadata c8_fs (=) [''v''] ''vault'')
     = Inr [''b.md'', ''a.md''] \<and>
   ALL_MD (Resolver c8_fs (=) [''v''] ''vault'') = [[''v'', ''a.md''], [''v'', ''b.md'']]"
  by code_simp


section \<open>The link entries\<close>

lemma endswith_append: "endswith (a @ b) b"
  by (simp add: endswith_def)

lemma resolve_target_meta_md:
  "resolve_target_for_text_and_meta R fs p raw = Inr (t, Some m) \<Longrightarrow> endswith m ''.md''"
  by (auto simp: resolve_target_for_text_and_meta_def Let_def endswith_def
           split: sum.splits prod.splits if_splits)

lemma wiki_entry_kept:
  assumes "wiki_entry R fs p (bang, body) = Inr (Some e)"
  shows "bang \<noteq> ''!'' \<and> endswith (le_relativePath e) ''.md'' \<and>
         stat_walk fs [] (root_join (ROOT R) (le_relativePath e))"
proof -
  from assms have b: "bang \<noteq> ''!''" by (auto simp: wiki_entry_def)
  from assms b obtain t m where
    r: "resolve_target_for_text_and_meta R fs p body = Inr (t, Some m)" and
    m: "le_relativePath e = m" and
    s: "stat_walk fs [] (root_join (ROOT R) m)"
    by (auto simp: wiki_entry_def split: sum.splits prod.splits option.splits if_splits)
  from resolve_target_meta_md [OF r] m s b show ?thesis by simp
qed

text \<open>
  C6, the code at the failing input: the vault holds the note \<open>a.md\<close>, whose text is
  \<open>[[d]]\<close>, and a directory that is called \<open>d.md\<close>. \<open>process_file\<close> emits a link entry
  with the \<open>relativePath\<close> \<open>d.md\<close>, which is no file: the entry is kept when
  \<open>(R.ROOT / meta_rel_with_md).exists()\<close> holds, and that holds for a directory too.
  What does hold of every entry of a wikilink is that the wikilink has no \<open>!\<close>, that the
  path ends with \<open>.md\<close> and that something exists at the path joined to the root
  (lemma \<open>wiki_entry_kept\<close>).
\<close>

theorem process_file_link_to_directory:
  "map_sum id (\<lambda>(it, fs'). map le_relativePath (get_links it))
     (process_file (Resolver c6_fs (=) [''v''] ''vault'') c6_fs [''v'', ''a.md''])
     = Inr [''d.md''] \<and>
   \<not> is_file c6_fs [''v'', ''d.md''] \<and> is_dir c6_fs [''v'', ''d.md'']"
  by code_simp


section \<open>Normalizing twice\<close>

text \<open>
  C1, the code at the failing input: the note \<open>d/a.md\<close> in relative mode, with a link
  to a note \<open>missing\<close> that does not exist. The two passes turn \<open>[[missing]]\<close> into
  \<open>[[../missing]]\<close>, and applied to that they give \<open>[[../../missing]]\<close>: the target that
  is not found is kept as typed by \<open>find_target_path\<close>, then read as a path from the
  root and made relative to the directory of the note, which puts one more \<open>../\<close> before
  it at every run. In vault mode, in the same vault, \<open>[[.]]\<close> becomes \<open>[[d]]\<close> and that
  becomes \<open>[[d/d]]\<close>.
\<close>

theorem normalize_not_idempotent:
  "normalize (Resolver c1_fs (=) [''v''] ''relative'') c1_fs [''v'', ''d'', ''a.md''] ''[[missing]]''
     = Inr ''[[../missing]]'' \<and>
   normalize (Resolver c1_fs (=) [''v''] ''relative'') c1_fs [''v'', ''d'', ''a.md''] ''[[../missing]]''
     = Inr ''[[../../missing]]'' \<and>
   normalize (Resolver c1_fs (=) [''v''] ''vault'') c1_fs [''v'', ''d'', ''a.md''] ''[[.]]''
     = Inr ''[[d]]'' \<and>
   normalize (Resolver c1_fs (=) [''v''] ''vault'') c1_fs [''v'', ''d'', ''a.md''] ''[[d]]''
     = Inr ''[[d/d]]''"
  by code_simp

end
